theory Spec2Isabelle
  imports Main "HOL-Library.Word" "HOL-Library.Sublist" "HOL-Library.AList"
begin

section \<open>Sprawl: order replication service and stream manager\<close>

text \<open>
  A shallow embedding of \<^verbatim>\<open>service/order.go\<close> (the order service) and
  \<^verbatim>\<open>p2p/stream.go\<close> (the stream manager). Go byte slices and strings are byte
  sequences; both are modelled as \<open>string\<close>, a list of 8-bit characters, so that the
  conversions \<^verbatim>\<open>string(b)\<close> and \<^verbatim>\<open>[]byte(s)\<close> are the identity.
\<close>

type_synonym bytes = string

subsection \<open>Errors and panics\<close>

text \<open>
  Modelled from the spec: package \<^verbatim>\<open>errors\<close> of the repository is absent from the
  sources at hand. The spec's error taxonomy only needs that a wrapped failure is again a
  failure: \<open>E op err\<close> stands for \<^verbatim>\<open>errors.E(errors.Op(op), err)\<close>, \<open>Cause\<close> for an
  error raised by a library or by the storage engine, the nil error is \<open>None\<close>, and
  \<^verbatim>\<open>errors.IsEmpty\<close> holds of the nil error alone. A guarded return
  \<^verbatim>\<open>if !errors.IsEmpty(err) { return errors.E(op, err) }\<close> is therefore the \<open>Some\<close>
  branch of a case on \<open>err\<close>, and a guarded rewrap
  \<^verbatim>\<open>if !errors.IsEmpty(err) { err = errors.E(op, err) }\<close> is \<open>map_option (E op) err\<close>.
\<close>

datatype error = Cause string | E string error

definition IsEmpty :: "error option \<Rightarrow> bool" where
  "IsEmpty err = (case err of None \<Rightarrow> True | Some e \<Rightarrow> False)"

text \<open>
  A Go function either returns or panics (here always a nil dereference: a method called
  on a nil interface, or a field read through a nil pointer). The state reached at the
  moment of the panic is kept beside the outcome.
\<close>

datatype 'a outcome = Panic string | Return 'a

definition nilDeref :: string where
  "nilDeref = ''invalid memory address or nil pointer dereference''"

subsection \<open>Storage key scheme\<close>

text \<open>
  \<^verbatim>\<open>getOrderStorageKey\<close> and \<^verbatim>\<open>getOrderQueryPrefix\<close> join their parts with the
  empty separator. The constant \<^verbatim>\<open>interfaces.OrderPrefix\<close> is declared outside the
  sources at hand, so it is the first argument here.
\<close>

definition getOrderStorageKey :: "bytes \<Rightarrow> bytes \<Rightarrow> bytes \<Rightarrow> bytes" where
  "getOrderStorageKey OrderPrefix channelID orderID = concat [OrderPrefix, channelID, orderID]"

definition getOrderQueryPrefix :: "bytes \<Rightarrow> bytes \<Rightarrow> bytes" where
  "getOrderQueryPrefix OrderPrefix channelID = concat [OrderPrefix, channelID]"

subsection \<open>Storage adapter\<close>

text \<open>
  Modelled from the spec: the storage engine (\<^verbatim>\<open>db.Storage\<close> behind
  \<^verbatim>\<open>interfaces.Storage\<close>) is absent from the sources at hand. The spec's contract is
  \<^verbatim>\<open>Put(key, value) error\<close>, \<^verbatim>\<open>Get(key) (value, error)\<close> with an error on a missing
  key, \<^verbatim>\<open>Delete(key) error\<close> with no error on a missing key, and
  \<^verbatim>\<open>GetAllWithPrefix(prefix) (map, error)\<close>. The store is an association list with
  one entry per key; each operation can also fail with an I/O error of the engine, in
  which case it changes nothing.
\<close>

record Storage =
  kv :: "(bytes \<times> bytes) list"
  putError :: "error option"
  getError :: "error option"
  deleteError :: "error option"
  scanError :: "error option"

definition ErrNotFound :: error where
  "ErrNotFound = Cause ''not found''"

definition Storage_Put :: "Storage \<Rightarrow> bytes \<Rightarrow> bytes \<Rightarrow> error option \<times> Storage" where
  "Storage_Put st k v =
     (case putError st of
        Some e \<Rightarrow> (Some e, st)
      | None \<Rightarrow> (None, st\<lparr>kv := AList.update k v (kv st)\<rparr>))"

definition Storage_Get :: "Storage \<Rightarrow> bytes \<Rightarrow> bytes \<times> error option" where
  "Storage_Get st k =
     (case getError st of
        Some e \<Rightarrow> ([], Some e)
      | None \<Rightarrow>
          (case map_of (kv st) k of
             None \<Rightarrow> ([], Some ErrNotFound)
           | Some v \<Rightarrow> (v, None)))"

definition Storage_Delete :: "Storage \<Rightarrow> bytes \<Rightarrow> error option \<times> Storage" where
  "Storage_Delete st k =
     (case deleteError st of
        Some e \<Rightarrow> (Some e, st)
      | None \<Rightarrow> (None, st\<lparr>kv := AList.delete k (kv st)\<rparr>))"

definition Storage_GetAllWithPrefix ::
  "Storage \<Rightarrow> bytes \<Rightarrow> (bytes \<times> bytes) list \<times> error option" where
  "Storage_GetAllWithPrefix st p =
     (case scanError st of
        Some e \<Rightarrow> ([], Some e)
      | None \<Rightarrow> (filter (\<lambda>entry. prefix p (fst entry)) (kv st), None))"

subsection \<open>Protocol records\<close>

text \<open>
  Modelled from the spec: the generated package \<^verbatim>\<open>pb\<close> is absent from the sources at
  hand. The spec gives \<^verbatim>\<open>WireMessage{channelID, operation, data}\<close> with operations
  CREATE=0, DELETE=1, SYNC_REQUEST=2, SYNC_RECEIVE=3 and
  \<^verbatim>\<open>Order{id, createdAt, asset, counterAsset, amount, price, state}\<close> with state OPEN=0.
  Protocol-buffer enumerations are open, so each has a constructor for the other numbers.
  Amount and price are only ever copied; they are carried as bit patterns.
\<close>

datatype Operation = CREATE | DELETE | SYNC_REQUEST | SYNC_RECEIVE | Operation_other int

datatype State = OPEN | State_other int

record Timestamp =
  Seconds :: "64 word"
  Nanos :: "32 word"

record Order =
  Id' :: bytes
  Created :: "Timestamp option"
  Asset :: string
  CounterAsset :: string
  Amount :: "64 word"
  Price :: "32 word"
  State :: State

record OrderList =
  Orders :: "Order list"

record WireMessage =
  ChannelID :: bytes
  Operation :: Operation
  Data :: bytes

record CreateRequest =
  cr_ChannelID :: bytes
  cr_Asset :: string
  cr_CounterAsset :: string
  cr_Amount :: "64 word"
  cr_Price :: "32 word"

record CreateResponse =
  CreatedOrder :: Order

record OrderSpecificRequest =
  osr_ChannelID :: bytes
  osr_OrderID :: bytes

subsection \<open>Libraries\<close>

text \<open>
  What the code takes from libraries outside the repository is a parameter of the model:
  the order prefix constant, HMAC-SHA256 (key first), the text rendering of a request and
  of a timestamp, and \<^verbatim>\<open>proto.Marshal\<close> and \<^verbatim>\<open>proto.Unmarshal\<close> at each message
  type. \<^verbatim>\<open>proto.Unmarshal\<close> fills the message it is given and returns an error, so
  its model returns both. Go leaves the order in which \<^verbatim>\<open>range\<close> visits a map
  unspecified; \<open>rangeOrder\<close> supplies it.
\<close>

record Env =
  OrderPrefix :: bytes
  hmacSHA256 :: "bytes \<Rightarrow> bytes \<Rightarrow> bytes"
  CreateRequest_String :: "CreateRequest \<Rightarrow> bytes"
  Timestamp_String :: "Timestamp \<Rightarrow> bytes"
  Marshal_Order :: "Order \<Rightarrow> bytes \<times> error option"
  Unmarshal_Order :: "bytes \<Rightarrow> Order \<times> error option"
  Marshal_OrderList :: "OrderList \<Rightarrow> bytes \<times> error option"
  Unmarshal_OrderList :: "bytes \<Rightarrow> OrderList \<times> error option"
  Marshal_WireMessage :: "WireMessage \<Rightarrow> bytes \<times> error option"
  Unmarshal_WireMessage :: "bytes \<Rightarrow> WireMessage \<times> error option"
  rangeOrder :: "(bytes \<times> bytes) list \<Rightarrow> (bytes \<times> bytes) list"

subsection \<open>Logger\<close>

text \<open>
  \<^verbatim>\<open>interfaces.Logger\<close> is an interface value: \<open>None\<close> is the nil interface, on which
  every call panics; a registered logger is the list of the calls it has received.
\<close>

datatype LogArg = ArgStr bytes | ArgErr error | ArgOp Operation | ArgOrderList OrderList

datatype LogEntry =
  Debugf string "LogArg list"
  | Info "LogArg list"
  | Warn "LogArg list"
  | Errorf string "LogArg list"

type_synonym Logger = "LogEntry list"

definition Logger_call :: "Logger option \<Rightarrow> LogEntry \<Rightarrow> Logger option outcome" where
  "Logger_call lg entry =
     (case lg of
        None \<Rightarrow> Panic nilDeref
      | Some entries \<Rightarrow> Return (Some (entries @ [entry])))"

subsection \<open>Stream manager (p2p/stream.go)\<close>

text \<open>
  The libp2p host is a library. Its model keeps the connections it has opened (who the
  remote peer is, the bytes delivered so far, whether the connection was closed) and
  three oracles saying which dial, write and close fail. A peer identity is modelled by
  its string form, the key of the stream map.
\<close>

record Conn =
  remote :: string
  delivered :: bytes
  closed :: bool

record Host =
  conns :: "Conn list"
  dialError :: "string \<Rightarrow> error option"
  writeError :: "nat \<Rightarrow> error option"
  closeError :: "nat \<Rightarrow> error option"

definition host_NewStream :: "Host \<Rightarrow> string \<Rightarrow> (nat option \<times> error option) \<times> Host" where
  "host_NewStream h peerID =
     (case dialError h peerID of
        Some e \<Rightarrow> ((None, Some e), h)
      | None \<Rightarrow>
          ((Some (length (conns h)), None),
           h\<lparr>conns := conns h @ [\<lparr>remote = peerID, delivered = [], closed = False\<rparr>]\<rparr>))"

definition conn_Write :: "Host \<Rightarrow> nat \<Rightarrow> bytes \<Rightarrow> error option \<times> Host" where
  "conn_Write h c data =
     (case writeError h c of
        Some e \<Rightarrow> (Some e, h)
      | None \<Rightarrow>
          (if c < length (conns h)
           then (None, h\<lparr>conns := (conns h)[c := (conns h ! c)\<lparr>delivered := delivered (conns h ! c) @ data\<rparr>]\<rparr>)
           else (None, h)))"

definition conn_Close :: "Host \<Rightarrow> nat \<Rightarrow> error option \<times> Host" where
  "conn_Close h c =
     (if c < length (conns h)
      then (closeError h c, h\<lparr>conns := (conns h)[c := (conns h ! c)\<lparr>closed := True\<rparr>]\<rparr>)
      else (closeError h c, h))"

text \<open>
  \<^verbatim>\<open>Stream{stream, input, output}\<close>: \<open>stream\<close> is an interface value and \<open>input\<close>,
  \<open>output'\<close> (the field \<^verbatim>\<open>output\<close>) are pointers to a buffered writer and reader;
  \<open>None\<close> is nil, \<open>Some c\<close> is the connection \<open>c\<close> of the host (for \<open>input\<close>, the
  buffered writer over it).
\<close>

record Stream =
  stream :: "nat option"
  input :: "nat option"
  output' :: "nat option"

text \<open>
  The struct \<^verbatim>\<open>P2p\<close> is declared outside the sources at hand; these are the fields that
  \<^verbatim>\<open>stream.go\<close> uses (\<open>p2p_Logger\<close> is its field \<^verbatim>\<open>Logger\<close>). \<open>streams\<close> maps a
  peer to a pointer to a \<open>Stream\<close>; a peer with no entry reads as the nil pointer.
  Modelled from the spec: \<^verbatim>\<open>Send\<close> is absent from the sources at hand; by the spec it
  broadcasts the message on its channel topic with no delivery confirmation, here the
  list \<open>published\<close>.
\<close>

record P2p =
  p2p_Logger :: "Logger option"
  host :: Host
  streams :: "string \<rightharpoonup> Stream"
  published :: "WireMessage list"

definition Send :: "P2p \<Rightarrow> WireMessage \<Rightarrow> P2p" where
  "Send p2p wireMessage = p2p\<lparr>published := published p2p @ [wireMessage]\<rparr>"

text \<open>
  \<^verbatim>\<open>WriteToStream\<close>: \<^verbatim>\<open>stream.input.Write(data)\<close> dereferences \<open>input\<close>; then
  \<^verbatim>\<open>Flush\<close> hands the buffered bytes to the connection and its error is the result.
\<close>

definition WriteToStream :: "Host \<Rightarrow> Stream \<Rightarrow> bytes \<Rightarrow> error option outcome \<times> Host" where
  "WriteToStream h strm data =
     (case input strm of
        None \<Rightarrow> (Panic nilDeref, h)
      | Some c \<Rightarrow> (case conn_Write h c data of (err, h') \<Rightarrow> (Return err, h')))"

text \<open>
  \<^verbatim>\<open>OpenStream\<close>: \<^verbatim>\<open>var newStream Stream\<close> is the zero value. In the success branch
  \<^verbatim>\<open>newStream := &Stream{...}\<close> declares a second variable of that name, which is
  stored in the map; the function returns the outer one.
\<close>

definition OpenStream :: "P2p \<Rightarrow> string \<Rightarrow> (Stream \<times> error option) outcome \<times> P2p" where
  "OpenStream p2p peerID =
     (case host_NewStream (host p2p) peerID of
        ((stream', err), h') \<Rightarrow>
          (let p2p1 = p2p\<lparr>host := h'\<rparr>;
               newStream = \<lparr>stream = None, input = None, output' = None\<rparr>
           in case err of
                Some e \<Rightarrow>
                  (case Logger_call (p2p_Logger p2p1) (Errorf ''Stream open failed: %s'' [ArgErr e]) of
                     Panic m \<Rightarrow> (Panic m, p2p1)
                   | Return lg \<Rightarrow> (Return (newStream, err), p2p1\<lparr>p2p_Logger := lg\<rparr>))
              | None \<Rightarrow>
                  (let writer = stream';
                       newStream' = \<lparr>stream = stream', input = writer, output' = None\<rparr>;
                       p2p2 = p2p1\<lparr>streams := (streams p2p1)(peerID \<mapsto> newStream')\<rparr>
                   in case Logger_call (p2p_Logger p2p2) (Debugf ''Stream opened with %s'' [ArgStr peerID]) of
                        Panic m \<Rightarrow> (Panic m, p2p2)
                      | Return lg \<Rightarrow> (Return (newStream, err), p2p2\<lparr>p2p_Logger := lg\<rparr>))))"

text \<open>
  \<^verbatim>\<open>CloseStream\<close>: \<^verbatim>\<open>p2p.streams[peerID.String()].stream.Close()\<close> reads the field
  \<open>stream\<close> through the pointer found in the map and calls \<open>Close\<close> on it; then the
  entry is deleted.
\<close>

definition CloseStream :: "P2p \<Rightarrow> string \<Rightarrow> error option outcome \<times> P2p" where
  "CloseStream p2p peerID =
     (case streams p2p peerID of
        None \<Rightarrow> (Panic nilDeref, p2p)
      | Some strm \<Rightarrow>
          (case stream strm of
             None \<Rightarrow> (Panic nilDeref, p2p)
           | Some c \<Rightarrow>
               (case conn_Close (host p2p) c of
                  (err, h') \<Rightarrow>
                    (Return err, p2p\<lparr>host := h', streams := (streams p2p)(peerID := None)\<rparr>))))"

subsection \<open>Order service (service/order.go)\<close>

text \<open>
  \<^verbatim>\<open>SyncState\<close> is a Go \<^verbatim>\<open>int\<close> with two named values. The mutex \<^verbatim>\<open>syncLock\<close>
  has no effect on a sequential run and is left out.
\<close>

type_synonym SyncState = int

definition UpToDate :: SyncState where
  "UpToDate = 0"

definition OutOfDate :: SyncState where
  "OutOfDate = 1"

record OrderService =
  Logger :: "Logger option"
  Storage :: "Storage option"
  P2p :: "P2p option"
  syncState :: SyncState

text \<open>The composite literal \<^verbatim>\<open>OrderService{}\<close>: every field has its zero value.\<close>

definition new_OrderService :: OrderService where
  "new_OrderService = \<lparr>Logger = None, Storage = None, P2p = None, syncState = 0\<rparr>"

definition SetSyncState :: "OrderService \<Rightarrow> SyncState \<Rightarrow> OrderService" where
  "SetSyncState s syncState' = s\<lparr>syncState := syncState'\<rparr>"

definition GetSyncState :: "OrderService \<Rightarrow> SyncState" where
  "GetSyncState s = syncState s"

definition RegisterStorage :: "OrderService \<Rightarrow> Storage \<Rightarrow> OrderService" where
  "RegisterStorage s storage = s\<lparr>Storage := Some storage\<rparr>"

definition RegisterP2p :: "OrderService \<Rightarrow> P2p \<Rightarrow> OrderService" where
  "RegisterP2p s p2p = s\<lparr>P2p := Some p2p\<rparr>"

definition noP2pWarning :: string where
  "noP2pWarning =
     ''P2p service not registered with OrderService, not publishing or receiving orders from the network!''"

definition noStorageWarning :: string where
  "noStorageWarning = ''Storage not registered with OrderService, not persisting Orders!''"

text \<open>
  \<^verbatim>\<open>Create\<close>. The request is a non-nil pointer, here and in \<open>Delete\<close>. The reading
  of the clock, \<^verbatim>\<open>ptypes.TimestampNow()\<close>, is the argument \<open>now\<close>. The error of
  \<^verbatim>\<open>proto.Marshal\<close> is only logged; the error returned is the one of
  \<^verbatim>\<open>Storage.Put\<close>, rewrapped. \<^verbatim>\<open>s.Storage\<close> is called without a nil check.
\<close>

definition Create ::
  "Env \<Rightarrow> OrderService \<Rightarrow> Timestamp \<Rightarrow> CreateRequest \<Rightarrow>
   (CreateResponse \<times> error option) outcome \<times> OrderService" where
  "Create env s now req =
     (let secret = ''mysecret'';
          id' = hmacSHA256 env secret (CreateRequest_String env req @ Timestamp_String env now);
          order = \<lparr>Id' = id', Created = Some now, Asset = cr_Asset req,
                   CounterAsset = cr_CounterAsset req, Amount = cr_Amount req,
                   Price = cr_Price req, State = OPEN\<rparr>
      in case Marshal_Order env order of
           (orderInBytes, err) \<Rightarrow>
             (case (case err of
                      None \<Rightarrow> Return (Logger s)
                    | Some e \<Rightarrow> Logger_call (Logger s) (Warn [ArgErr (E ''Marshal order'' e)])) of
                Panic m \<Rightarrow> (Panic m, s)
              | Return lg \<Rightarrow>
                  (let s1 = s\<lparr>Logger := lg\<rparr>
                   in case Storage s1 of
                        None \<Rightarrow> (Panic nilDeref, s1)
                      | Some st \<Rightarrow>
                          (case Storage_Put st
                                  (getOrderStorageKey (OrderPrefix env) (cr_ChannelID req) id')
                                  orderInBytes of
                             (err, st') \<Rightarrow>
                               (let err = map_option (E ''Put order'') err;
                                    s2 = s1\<lparr>Storage := Some st'\<rparr>;
                                    wireMessage = \<lparr>ChannelID = cr_ChannelID req, Operation = CREATE,
                                                   Data = orderInBytes\<rparr>
                                in case P2p s2 of
                                     Some p2p \<Rightarrow>
                                       (Return (\<lparr>CreatedOrder = order\<rparr>, err),
                                        s2\<lparr>P2p := Some (Send p2p wireMessage)\<rparr>)
                                   | None \<Rightarrow>
                                       (case Logger_call (Logger s2) (Warn [ArgStr noP2pWarning]) of
                                          Panic m \<Rightarrow> (Panic m, s2)
                                        | Return lg \<Rightarrow>
                                            (Return (\<lparr>CreatedOrder = order\<rparr>, err),
                                             s2\<lparr>Logger := lg\<rparr>)))))))"

text \<open>
  \<^verbatim>\<open>Receive\<close>, one definition for each case of the switch. Each takes the service
  \<open>s\<close>, the registered storage \<open>st\<close>, and the fields read from the envelope, and
  gives what \<open>Receive\<close> returns at its end (the variable \<open>err\<close> of the function body)
  or earlier.
\<close>

definition Receive_CREATE ::
  "Env \<Rightarrow> OrderService \<Rightarrow> Storage \<Rightarrow> bytes \<Rightarrow> bytes \<Rightarrow> error option outcome \<times> OrderService" where
  "Receive_CREATE env s st channelID data =
     (case Unmarshal_Order env data of
        (order, err) \<Rightarrow>
          (case err of
             Some e \<Rightarrow> (Return (Some (E ''Unmarshal order proto in Receive'' e)), s)
           | None \<Rightarrow>
               (case Storage_Put st (getOrderStorageKey (OrderPrefix env) channelID (Id' order)) data of
                  (err, st') \<Rightarrow>
                    (Return (map_option (E ''Put order'') err), s\<lparr>Storage := Some st'\<rparr>))))"

definition Receive_DELETE ::
  "Env \<Rightarrow> OrderService \<Rightarrow> Storage \<Rightarrow> bytes \<Rightarrow> bytes \<Rightarrow> error option outcome \<times> OrderService" where
  "Receive_DELETE env s st channelID data =
     (case Unmarshal_Order env data of
        (order, err) \<Rightarrow>
          (case err of
             Some e \<Rightarrow> (Return (Some (E ''Unmarshal order proto in Receive'' e)), s)
           | None \<Rightarrow>
               (case Storage_Delete st (getOrderStorageKey (OrderPrefix env) channelID (Id' order)) of
                  (err, st') \<Rightarrow>
                    (Return (map_option (E ''Put order'') err), s\<lparr>Storage := Some st'\<rparr>))))"

text \<open>
  The case \<^verbatim>\<open>SYNC_REQUEST\<close> declares its own \<open>err\<close> (\<^verbatim>\<open>orders, err := ...\<close>); every
  failure in it returns at once, and at its end the function returns the outer \<open>err\<close>,
  which is nil. \<^verbatim>\<open>s.P2p\<close> is called without a nil check. The error of
  \<^verbatim>\<open>proto.Unmarshal\<close> on a stored value is dropped. The case is cut in three:
  \<open>syncResponse\<close> builds the encoded envelope (up to the second \<^verbatim>\<open>proto.Marshal\<close>),
  \<open>Receive_SYNC_REQUEST\<close> opens the stream, \<open>writeAndClose\<close> is the rest.
\<close>

definition syncResponse :: "Env \<Rightarrow> Storage \<Rightarrow> bytes \<Rightarrow> error + bytes" where
  "syncResponse env st channelID =
     (case Storage_GetAllWithPrefix st (getOrderQueryPrefix (OrderPrefix env) channelID) of
        (orders, err) \<Rightarrow>
          (case err of
             Some e \<Rightarrow> Inl (E ''Fetch orders for sync'' e)
           | None \<Rightarrow>
               (let orderList =
                      \<lparr>Orders = map (\<lambda>entry. fst (Unmarshal_Order env (snd entry)))
                                    (rangeOrder env orders)\<rparr>
                in case Marshal_OrderList env orderList of
                     (marshaledOrderList, err) \<Rightarrow>
                       (case err of
                          Some e \<Rightarrow> Inl (E ''Marshal orderList in sync request'' e)
                        | None \<Rightarrow>
                            (let syncMessage =
                                   \<lparr>ChannelID = channelID, Operation = SYNC_RECEIVE,
                                    Data = marshaledOrderList\<rparr>
                             in case Marshal_WireMessage env syncMessage of
                                  (marshaledData, err) \<Rightarrow>
                                    (case err of
                                       Some e \<Rightarrow> Inl (E ''Marshal wireMessage in sync request'' e)
                                     | None \<Rightarrow> Inr marshaledData))))))"

definition writeAndClose ::
  "OrderService \<Rightarrow> P2p \<Rightarrow> Stream \<Rightarrow> string \<Rightarrow> bytes \<Rightarrow> error option outcome \<times> OrderService" where
  "writeAndClose s p2p1 strm fromPeer marshaledData =
     (case WriteToStream (host p2p1) strm marshaledData of
        (written, h) \<Rightarrow>
          (case written of
             Panic m \<Rightarrow> (Panic m, s\<lparr>P2p := Some (p2p1\<lparr>host := h\<rparr>)\<rparr>)
           | Return err \<Rightarrow>
               (case err of
                  Some e \<Rightarrow> (Return (Some (E ''Write to stream'' e)), s\<lparr>P2p := Some (p2p1\<lparr>host := h\<rparr>)\<rparr>)
                | None \<Rightarrow>
                    (case CloseStream (p2p1\<lparr>host := h\<rparr>) fromPeer of
                       (closed', p2p2) \<Rightarrow>
                         (case closed' of
                            Panic m \<Rightarrow> (Panic m, s\<lparr>P2p := Some p2p2\<rparr>)
                          | Return err \<Rightarrow>
                              (case err of
                                 Some e \<Rightarrow> (Return (Some (E ''Close the stream'' e)), s\<lparr>P2p := Some p2p2\<rparr>)
                               | None \<Rightarrow> (Return None, s\<lparr>P2p := Some p2p2\<rparr>)))))))"

definition Receive_SYNC_REQUEST ::
  "Env \<Rightarrow> OrderService \<Rightarrow> Storage \<Rightarrow> bytes \<Rightarrow> string \<Rightarrow> error option outcome \<times> OrderService" where
  "Receive_SYNC_REQUEST env s st channelID fromPeer =
     (case syncResponse env st channelID of
        Inl e \<Rightarrow> (Return (Some e), s)
      | Inr marshaledData \<Rightarrow>
          (case P2p s of
             None \<Rightarrow> (Panic nilDeref, s)
           | Some p2p \<Rightarrow>
               (case OpenStream p2p fromPeer of
                  (opened, p2p1) \<Rightarrow>
                    (case opened of
                       Panic m \<Rightarrow> (Panic m, s\<lparr>P2p := Some p2p1\<rparr>)
                     | Return res \<Rightarrow>
                         (case snd res of
                            Some e \<Rightarrow>
                              (Return (Some (E ''Open a sync request stream'' e)), s\<lparr>P2p := Some p2p1\<rparr>)
                          | None \<Rightarrow> writeAndClose s p2p1 (fst res) fromPeer marshaledData)))))"

text \<open>
  The loop of the case \<^verbatim>\<open>SYNC_RECEIVE\<close> declares its own \<open>err\<close> too: the errors of
  \<^verbatim>\<open>proto.Marshal\<close> and of \<^verbatim>\<open>Storage.Put\<close> are dropped, the loop always runs to
  its end, and the function returns the outer \<open>err\<close>, nil.
\<close>

definition putReceived :: "Env \<Rightarrow> bytes \<Rightarrow> Storage \<Rightarrow> Order \<Rightarrow> Storage" where
  "putReceived env channelID st order =
     (case Marshal_Order env order of
        (orderBytes, err) \<Rightarrow>
          snd (Storage_Put st (getOrderStorageKey (OrderPrefix env) channelID (Id' order)) orderBytes))"

definition Receive_SYNC_RECEIVE ::
  "Env \<Rightarrow> OrderService \<Rightarrow> Storage \<Rightarrow> bytes \<Rightarrow> bytes \<Rightarrow> error option outcome \<times> OrderService" where
  "Receive_SYNC_RECEIVE env s st channelID data =
     (case Unmarshal_OrderList env data of
        (orderList, err) \<Rightarrow>
          (case err of
             Some e \<Rightarrow> (Return (Some (E ''Unmarshal order proto in Receive'' e)), s)
           | None \<Rightarrow>
               (case Logger_call (Logger s) (Info [ArgOrderList orderList]) of
                  Panic m \<Rightarrow> (Panic m, s)
                | Return lg \<Rightarrow>
                    (Return None,
                     s\<lparr>Logger := lg,
                       Storage := Some (foldl (putReceived env channelID) st (Orders orderList))\<rparr>))))"

text \<open>
  \<^verbatim>\<open>Receive\<close>. The second test of \<open>err\<close>, after the fields are read, sees the value
  the first test has already found nil. An operation outside the four cases falls through
  the switch.
\<close>

definition Receive ::
  "Env \<Rightarrow> OrderService \<Rightarrow> bytes \<Rightarrow> string \<Rightarrow> error option outcome \<times> OrderService" where
  "Receive env s buf fromPeer =
     (case Unmarshal_WireMessage env buf of
        (wireMessage, err) \<Rightarrow>
          (case err of
             Some e \<Rightarrow> (Return (Some (E ''Unmarshal wiremessage proto in Receive'' e)), s)
           | None \<Rightarrow>
               (let op = Operation wireMessage;
                    data = Data wireMessage;
                    channelID = ChannelID wireMessage
                in case Logger_call (Logger s)
                          (Debugf ''%s: %s.%s'' [ArgStr fromPeer, ArgStr channelID, ArgOp op]) of
                     Panic m \<Rightarrow> (Panic m, s)
                   | Return lg \<Rightarrow>
                       (let s1 = s\<lparr>Logger := lg\<rparr>
                        in case Storage s1 of
                             Some st \<Rightarrow>
                               (case op of
                                  CREATE \<Rightarrow> Receive_CREATE env s1 st channelID data
                                | DELETE \<Rightarrow> Receive_DELETE env s1 st channelID data
                                | SYNC_REQUEST \<Rightarrow> Receive_SYNC_REQUEST env s1 st channelID fromPeer
                                | SYNC_RECEIVE \<Rightarrow> Receive_SYNC_RECEIVE env s1 st channelID data
                                | Operation_other n \<Rightarrow> (Return None, s1))
                           | None \<Rightarrow>
                               (case Logger_call (Logger s1) (Warn [ArgStr noStorageWarning]) of
                                  Panic m \<Rightarrow> (Panic m, s1)
                                | Return lg \<Rightarrow> (Return None, s1\<lparr>Logger := lg\<rparr>))))))"

text \<open>
  \<^verbatim>\<open>Delete\<close> returns \<^verbatim>\<open>(*pb.Empty, error)\<close>: the nil pointer with the wrapped error
  when the read fails, otherwise an empty message with the error of
  \<^verbatim>\<open>Storage.Delete\<close>, rewrapped.
\<close>

definition Delete ::
  "Env \<Rightarrow> OrderService \<Rightarrow> OrderSpecificRequest \<Rightarrow>
   (unit option \<times> error option) outcome \<times> OrderService" where
  "Delete env s req =
     (case Storage s of
        None \<Rightarrow> (Panic nilDeref, s)
      | Some st \<Rightarrow>
          (case Storage_Get st (getOrderStorageKey (OrderPrefix env) (osr_ChannelID req) (osr_OrderID req)) of
             (orderInBytes, err) \<Rightarrow>
               (case err of
                  Some e \<Rightarrow> (Return (None, Some (E ''Delete order'' e)), s)
                | None \<Rightarrow>
                    (let wireMessage = \<lparr>ChannelID = osr_ChannelID req, Operation = DELETE,
                                        Data = orderInBytes\<rparr>
                     in case (case P2p s of
                                Some p2p \<Rightarrow> Return (s\<lparr>P2p := Some (Send p2p wireMessage)\<rparr>)
                              | None \<Rightarrow>
                                  (case Logger_call (Logger s) (Warn [ArgStr noP2pWarning]) of
                                     Panic m \<Rightarrow> Panic m
                                   | Return lg \<Rightarrow> Return (s\<lparr>Logger := lg\<rparr>))) of
                          Panic m \<Rightarrow> (Panic m, s)
                        | Return s1 \<Rightarrow>
                            (case Storage_Delete st
                                    (getOrderStorageKey (OrderPrefix env) (osr_ChannelID req) (osr_OrderID req)) of
                               (err, st') \<Rightarrow>
                                 (Return (Some (), map_option (E ''Delete order'') err),
                                  s1\<lparr>Storage := Some st'\<rparr>))))))"

subsection \<open>A concrete configuration\<close>

text \<open>
  An instance of the libraries and a small node, on which the operations are evaluated
  below. The codec is a toy one: an envelope is one letter for the operation
  (\<open>C\<close>, \<open>D\<close>, \<open>Q\<close> for a sync request, \<open>R\<close> for a sync response), the channel,
  a colon and the payload, and the empty buffer does not decode; an order is encoded as
  its identifier. The keyed hash is stood in for by concatenation. No general theorem
  depends on these choices.
\<close>

definition opOf :: "char \<Rightarrow> Operation" where
  "opOf c =
     (if c = CHR ''C'' then CREATE
      else if c = CHR ''D'' then DELETE
      else if c = CHR ''Q'' then SYNC_REQUEST
      else if c = CHR ''R'' then SYNC_RECEIVE
      else Operation_other 4)"

definition exampleEnv :: Env where
  "exampleEnv =
     \<lparr>OrderPrefix = ''order-'',
      hmacSHA256 = (\<lambda>key msg. key @ msg),
      CreateRequest_String = (\<lambda>req. cr_ChannelID req @ cr_Asset req @ cr_CounterAsset req),
      Timestamp_String = (\<lambda>t. ''now''),
      Marshal_Order = (\<lambda>order. (Id' order, None)),
      Unmarshal_Order =
        (\<lambda>b. (\<lparr>Id' = b, Created = None, Asset = [], CounterAsset = [], Amount = 0, Price = 0,
                State = OPEN\<rparr>,
              if b = [] then Some (Cause ''unexpected EOF'') else None)),
      Marshal_OrderList = (\<lambda>l. (concat (map (\<lambda>order. Id' order @ '';'') (Orders l)), None)),
      Unmarshal_OrderList = (\<lambda>b. (\<lparr>Orders = []\<rparr>, None)),
      Marshal_WireMessage = (\<lambda>m. (''R'' @ ChannelID m @ '':'' @ Data m, None)),
      Unmarshal_WireMessage =
        (\<lambda>b. case b of
               [] \<Rightarrow> (\<lparr>ChannelID = [], Operation = CREATE, Data = []\<rparr>, Some (Cause ''unexpected EOF''))
             | c # r \<Rightarrow>
                 (\<lparr>ChannelID = takeWhile (\<lambda>x. x \<noteq> CHR '':'') r, Operation = opOf c,
                   Data = drop 1 (dropWhile (\<lambda>x. x \<noteq> CHR '':'') r)\<rparr>, None)),
      rangeOrder = (\<lambda>entries. entries)\<rparr>"

definition exampleStorage :: Storage where
  "exampleStorage =
     \<lparr>kv = [(''order-c1id1'', ''id1'')], putError = None, getError = None, deleteError = None,
      scanError = None\<rparr>"

definition fullStorage :: Storage where
  "fullStorage = exampleStorage\<lparr>putError := Some (Cause ''disk full'')\<rparr>"

definition exampleP2p :: P2p where
  "exampleP2p =
     \<lparr>p2p_Logger = Some [],
      host = \<lparr>conns = [], dialError = (\<lambda>p. None), writeError = (\<lambda>c. None), closeError = (\<lambda>c. None)\<rparr>,
      streams = Map.empty, published = []\<rparr>"

text \<open>
  A node with a logger and storage but no transport, the same node with the transport
  registered, and that node on a storage whose writes fail.
\<close>

definition localService :: OrderService where
  "localService = RegisterStorage (new_OrderService\<lparr>Logger := Some []\<rparr>) exampleStorage"

definition exampleService :: OrderService where
  "exampleService = RegisterP2p localService exampleP2p"

definition fullDiskService :: OrderService where
  "fullDiskService = RegisterStorage exampleService fullStorage"

definition exampleRequest :: CreateRequest where
  "exampleRequest =
     \<lparr>cr_ChannelID = ''c1'', cr_Asset = ''ETH'', cr_CounterAsset = ''BTC'', cr_Amount = 52152,
      cr_Price = 1045220557\<rparr>"

definition exampleNow :: Timestamp where
  "exampleNow = \<lparr>Seconds = 1577836800, Nanos = 0\<rparr>"

definition deleteRequest :: OrderSpecificRequest where
  "deleteRequest = \<lparr>osr_ChannelID = ''c1'', osr_OrderID = ''id1''\<rparr>"

lemmas storage_defs =
  Storage_Put_def Storage_Get_def Storage_Delete_def Storage_GetAllWithPrefix_def

lemmas example_defs =
  exampleEnv_def exampleService_def localService_def fullDiskService_def fullStorage_def
  exampleStorage_def exampleP2p_def opOf_def new_OrderService_def RegisterStorage_def
  RegisterP2p_def

section \<open>Properties of the key scheme\<close>

lemma getOrderStorageKey_append:
  "getOrderStorageKey p c i = p @ c @ i"
  by (simp add: getOrderStorageKey_def)

lemma getOrderQueryPrefix_append:
  "getOrderQueryPrefix p c = p @ c"
  by (simp add: getOrderQueryPrefix_def)

lemma append_eq_no_strict_prefix:
  assumes eq: "c1 @ i1 = c2 @ i2"
    and n12: "\<not> strict_prefix c1 c2"
    and n21: "\<not> strict_prefix c2 c1"
  shows "c1 = c2 \<and> i1 = i2"
proof -
  from eq have "prefix c1 (c2 @ i2)" and "prefix c2 (c1 @ i1)"
    by (metis prefixI)+
  then have "prefix c1 c2 \<or> prefix c2 c1"
    by (auto simp: prefix_append)
  with n12 n21 have "c1 = c2"
    by (auto simp: strict_prefix_def)
  with eq show ?thesis by simp
qed

lemma key_has_query_prefix_iff:
  "prefix (getOrderQueryPrefix p a) (getOrderStorageKey p b i) \<longleftrightarrow> prefix a (b @ i)"
  by (simp add: getOrderStorageKey_append getOrderQueryPrefix_append)

lemma prefix_append_cases:
  "prefix a (b @ i) \<Longrightarrow> prefix a b \<or> prefix b a"
  by (auto simp: prefix_append)

text \<open>
  C2. The key function is not injective in the pair (channel, orderID) over all byte
  strings: the parts are joined with no separator, so the channel \<open>ab\<close> with the
  order \<open>c\<close> and the channel \<open>a\<close> with the order \<open>bc\<close> share one key.
\<close>

theorem C2_key_collision:
  "getOrderStorageKey ''order-'' ''ab'' ''c'' = getOrderStorageKey ''order-'' ''a'' ''bc''
   \<and> ''ab'' \<noteq> ''a'' \<and> ''c'' \<noteq> ''bc''"
  by (simp add: getOrderStorageKey_def)

text \<open>
  C2, as amended. The key function is injective on pairs whose channels are not proper
  prefixes of one another (in particular on channels of one fixed length): if neither of
  \<open>c1\<close>, \<open>c2\<close> is a proper prefix of the other and the keys of \<open>(c1, id1)\<close> and
  \<open>(c2, id2)\<close> are equal, then \<open>c1 = c2\<close> and \<open>id1 = id2\<close>.
\<close>

theorem C2_key_injective_amended:
  assumes "\<not> strict_prefix c1 c2" and "\<not> strict_prefix c2 c1"
    and "getOrderStorageKey p c1 id1 = getOrderStorageKey p c2 id2"
  shows "c1 = c2 \<and> id1 = id2"
  using assms append_eq_no_strict_prefix [of c1 id1 c2 id2]
  by (simp add: getOrderStorageKey_append)

theorem C2_key_injective_amended_witness:
  "\<not> strict_prefix ''c1'' ''c1'' \<and>
   getOrderStorageKey ''order-'' ''c1'' ''x7'' = getOrderStorageKey ''order-'' ''c1'' ''x7'' \<and>
   ''c1'' = ''c1'' \<and> ''x7'' = ''x7''"
  using C2_key_injective_amended [of "''c1''" "''c1''" "''order-''" "''x7''" "''x7''"]
  by simp


lemma IsEmpty_iff: "IsEmpty err \<longleftrightarrow> err = None"
  by (simp add: IsEmpty_def split: option.splits)

lemma scan_keys_have_prefix:
  "entry \<in> set (fst (Storage_GetAllWithPrefix st q)) \<Longrightarrow> prefix q (fst entry)"
  by (auto simp: Storage_GetAllWithPrefix_def split: option.splits)

text \<open>
  C3. Two distinct channels are not always isolated by the query prefix: with
  A = \<open>a\<close> and B = \<open>ab\<close> every key of B starts with the query prefix of A, and the
  prefix scan for A returns the order that is stored under B.
\<close>

theorem C3_prefix_scan_crosses_channels:
  "''a'' \<noteq> ''ab'' \<and>
   prefix (getOrderQueryPrefix ''order-'' ''a'') (getOrderStorageKey ''order-'' ''ab'' ''x1'') \<and>
   fst (Storage_GetAllWithPrefix
          \<lparr>kv = [(getOrderStorageKey ''order-'' ''ab'' ''x1'', ''v'')], putError = None,
           getError = None, deleteError = None, scanError = None\<rparr>
          (getOrderQueryPrefix ''order-'' ''a''))
     = [(getOrderStorageKey ''order-'' ''ab'' ''x1'', ''v'')]"
  by (simp add: getOrderStorageKey_def getOrderQueryPrefix_def Storage_GetAllWithPrefix_def)

text \<open>
  C3, as amended. For every two channels A and B neither of which is a prefix of the
  other (in particular distinct channels of one length), no key of an order under B starts
  with the query prefix of A; hence the prefix scan for A returns no entry under a key of
  channel B, whatever the store holds.
\<close>

theorem C3_channel_isolation_amended:
  assumes "\<not> prefix a b" and "\<not> prefix b a"
  shows "\<not> prefix (getOrderQueryPrefix p a) (getOrderStorageKey p b i) \<and>
         getOrderStorageKey p b i
           \<notin> fst ` set (fst (Storage_GetAllWithPrefix st (getOrderQueryPrefix p a)))"
proof -
  have no: "\<not> prefix (getOrderQueryPrefix p a) (getOrderStorageKey p b i)"
    using assms prefix_append_cases [of a b i] by (auto simp: key_has_query_prefix_iff)
  moreover have "getOrderStorageKey p b i
      \<notin> fst ` set (fst (Storage_GetAllWithPrefix st (getOrderQueryPrefix p a)))"
  proof
    assume "getOrderStorageKey p b i
      \<in> fst ` set (fst (Storage_GetAllWithPrefix st (getOrderQueryPrefix p a)))"
    then obtain entry where
      "entry \<in> set (fst (Storage_GetAllWithPrefix st (getOrderQueryPrefix p a)))"
      and "fst entry = getOrderStorageKey p b i"
      by auto
    with scan_keys_have_prefix [of entry st "getOrderQueryPrefix p a"] no show False
      by simp
  qed
  ultimately show ?thesis by simp
qed

theorem C3_channel_isolation_amended_witness:
  "\<not> prefix (getOrderQueryPrefix ''order-'' ''c1'') (getOrderStorageKey ''order-'' ''c2'' ''id1'') \<and>
   getOrderStorageKey ''order-'' ''c2'' ''id1''
     \<notin> fst ` set (fst (Storage_GetAllWithPrefix
                         \<lparr>kv = [(''order-c1id1'', ''v1''), (''order-c2id1'', ''v2'')], putError = None,
                          getError = None, deleteError = None, scanError = None\<rparr>
                         (getOrderQueryPrefix ''order-'' ''c1'')))"
  using C3_channel_isolation_amended [of "''c1''" "''c2''" "''order-''" "''id1''"]
  by simp

section \<open>The sync latch\<close>

text \<open>
  C9. A freshly constructed service reports \<open>UpToDate\<close>, the zero value of the type,
  before any call of \<open>SetSyncState\<close>; and after \<open>SetSyncState x\<close>, run sequentially, it
  reports \<open>x\<close>.
\<close>

theorem C9_sync_state_latch:
  "GetSyncState new_OrderService = UpToDate \<and> GetSyncState (SetSyncState s x) = x"
  by (simp add: GetSyncState_def SetSyncState_def new_OrderService_def UpToDate_def)

section \<open>Create\<close>

text \<open>
  With a logger and a storage registered \<open>Create\<close> always returns; this is what it
  returns and the state it leaves, whatever the outcome of the write.
\<close>

lemma Create_with_storage:
  assumes "Logger s = Some lg" and "Storage s = Some st"
  shows "Create env s now req =
    (let id' = hmacSHA256 env ''mysecret'' (CreateRequest_String env req @ Timestamp_String env now);
         order = \<lparr>Id' = id', Created = Some now, Asset = cr_Asset req,
                  CounterAsset = cr_CounterAsset req, Amount = cr_Amount req,
                  Price = cr_Price req, State = OPEN\<rparr>;
         orderInBytes = fst (Marshal_Order env order);
         lg1 = (case snd (Marshal_Order env order) of
                  None \<Rightarrow> lg
                | Some e \<Rightarrow> lg @ [Warn [ArgErr (E ''Marshal order'' e)]]);
         put = Storage_Put st (getOrderStorageKey (OrderPrefix env) (cr_ChannelID req) id') orderInBytes;
         wireMessage = \<lparr>ChannelID = cr_ChannelID req, Operation = CREATE, Data = orderInBytes\<rparr>
     in (Return (\<lparr>CreatedOrder = order\<rparr>, map_option (E ''Put order'') (fst put)),
         s\<lparr>Logger := (case P2p s of
                         Some p2p \<Rightarrow> Some lg1
                       | None \<Rightarrow> Some (lg1 @ [Warn [ArgStr noP2pWarning]])),
           Storage := Some (snd put),
           P2p := map_option (\<lambda>p2p. Send p2p wireMessage) (P2p s)\<rparr>))"
  using assms
  by (cases "Marshal_Order env
        \<lparr>Id' = hmacSHA256 env ''mysecret'' (CreateRequest_String env req @ Timestamp_String env now),
         Created = Some now, Asset = cr_Asset req, CounterAsset = cr_CounterAsset req,
         Amount = cr_Amount req, Price = cr_Price req, State = OPEN\<rparr>")
     (auto simp: Create_def Logger_call_def Let_def split: option.splits prod.splits)

lemma example_selectors:
  "hmacSHA256 exampleEnv = (@)"
  "OrderPrefix exampleEnv = ''order-''"
  "CreateRequest_String exampleEnv exampleRequest = ''c1ETHBTC''"
  "Timestamp_String exampleEnv exampleNow = ''now''"
  "Marshal_Order exampleEnv order = (Id' order, None)"
  "cr_ChannelID exampleRequest = ''c1''"
  "cr_Asset exampleRequest = ''ETH''"
  "cr_CounterAsset exampleRequest = ''BTC''"
  "cr_Amount exampleRequest = 52152"
  "cr_Price exampleRequest = 1045220557"
  by (simp_all add: exampleEnv_def exampleRequest_def)

text \<open>
  C8. On a node with a logger and a storage whose write succeeds, for every create
  request \<open>Create\<close> builds the order whose id is the HMAC-SHA256, under the fixed secret,
  of the serialized request followed by the timestamp, whose state is OPEN and whose
  asset, counter-asset, amount and price are those of the request; it returns that order
  with no error; the storage it leaves is the old one after a put of the order's encoding
  under the key of (channel, id), so that key now holds the encoding; and the transport,
  when there is one, has been sent the CREATE message. The transport is arbitrary: with
  none registered the call returns the same order and no error.
\<close>

theorem C8_create_persists_and_returns:
  assumes "Logger s = Some lg" and "Storage s = Some st" and "putError st = None"
  shows
    "let order = \<lparr>Id' = hmacSHA256 env ''mysecret''
                          (CreateRequest_String env req @ Timestamp_String env now),
                  Created = Some now, Asset = cr_Asset req, CounterAsset = cr_CounterAsset req,
                  Amount = cr_Amount req, Price = cr_Price req, State = OPEN\<rparr>;
         orderInBytes = fst (Marshal_Order env order);
         key = getOrderStorageKey (OrderPrefix env) (cr_ChannelID req) (Id' order);
         s' = snd (Create env s now req)
     in fst (Create env s now req) = Return (\<lparr>CreatedOrder = order\<rparr>, None) \<and>
        Storage s' = Some (snd (Storage_Put st key orderInBytes)) \<and>
        map_of (kv (snd (Storage_Put st key orderInBytes))) key = Some orderInBytes \<and>
        P2p s' = map_option
                   (\<lambda>p2p. Send p2p \<lparr>ChannelID = cr_ChannelID req, Operation = CREATE,
                                     Data = orderInBytes\<rparr>)
                   (P2p s)"
  using assms
  by (simp add: Create_with_storage [OF assms(1,2)] Let_def Storage_Put_def update_conv')

theorem C8_create_persists_and_returns_witness:
  "P2p localService = None \<and>
   fst (Create exampleEnv localService exampleNow exampleRequest)
     = Return (\<lparr>CreatedOrder =
                  \<lparr>Id' = ''mysecretc1ETHBTCnow'', Created = Some exampleNow, Asset = ''ETH'',
                   CounterAsset = ''BTC'', Amount = 52152, Price = 1045220557, State = OPEN\<rparr>\<rparr>,
               None) \<and>
   Storage (snd (Create exampleEnv localService exampleNow exampleRequest))
     = Some (exampleStorage\<lparr>kv := [(''order-c1id1'', ''id1''),
                                     (''order-c1mysecretc1ETHBTCnow'', ''mysecretc1ETHBTCnow'')]\<rparr>) \<and>
   P2p (snd (Create exampleEnv localService exampleNow exampleRequest)) = None"
proof -
  have lg: "Logger localService = Some []"
    and st: "Storage localService = Some exampleStorage"
    and put: "putError exampleStorage = None"
    and p2p: "P2p localService = None"
    by (simp_all add: example_defs)
  from C8_create_persists_and_returns [OF lg st put, of exampleEnv exampleRequest exampleNow]
  show ?thesis
    by (simp add: Let_def example_selectors p2p getOrderStorageKey_def Storage_Put_def
        exampleStorage_def)
qed

text \<open>
  C10. When the storage write inside \<open>Create\<close> fails, \<open>Create\<close> is not atomic: on a
  node with a transport it still broadcasts the CREATE message carrying the order's
  encoding and still returns the fully constructed order, beside the storage error; the
  storage is left as it was, so peers learn of an order this node has not persisted.
\<close>

theorem C10_create_put_failure:
  assumes "Logger s = Some lg" and "Storage s = Some st" and "putError st = Some e"
    and "P2p s = Some p2p"
  shows
    "let order = \<lparr>Id' = hmacSHA256 env ''mysecret''
                          (CreateRequest_String env req @ Timestamp_String env now),
                  Created = Some now, Asset = cr_Asset req, CounterAsset = cr_CounterAsset req,
                  Amount = cr_Amount req, Price = cr_Price req, State = OPEN\<rparr>;
         orderInBytes = fst (Marshal_Order env order);
         s' = snd (Create env s now req)
     in fst (Create env s now req) = Return (\<lparr>CreatedOrder = order\<rparr>, Some (E ''Put order'' e)) \<and>
        P2p s' = Some (Send p2p \<lparr>ChannelID = cr_ChannelID req, Operation = CREATE,
                                 Data = orderInBytes\<rparr>) \<and>
        Storage s' = Some st"
  using assms
  by (simp add: Create_with_storage [OF assms(1,2)] Let_def Storage_Put_def)

theorem C10_create_put_failure_witness:
  "fst (Create exampleEnv fullDiskService exampleNow exampleRequest)
     = Return (\<lparr>CreatedOrder =
                  \<lparr>Id' = ''mysecretc1ETHBTCnow'', Created = Some exampleNow, Asset = ''ETH'',
                   CounterAsset = ''BTC'', Amount = 52152, Price = 1045220557, State = OPEN\<rparr>\<rparr>,
               Some (E ''Put order'' (Cause ''disk full''))) \<and>
   P2p (snd (Create exampleEnv fullDiskService exampleNow exampleRequest))
     = Some (exampleP2p\<lparr>published :=
               [\<lparr>ChannelID = ''c1'', Operation = CREATE, Data = ''mysecretc1ETHBTCnow''\<rparr>]\<rparr>) \<and>
   Storage (snd (Create exampleEnv fullDiskService exampleNow exampleRequest)) = Some fullStorage"
proof -
  have lg: "Logger fullDiskService = Some []"
    and st: "Storage fullDiskService = Some fullStorage"
    and put: "putError fullStorage = Some (Cause ''disk full'')"
    and p2p: "P2p fullDiskService = Some exampleP2p"
    by (simp_all add: example_defs)
  from C10_create_put_failure [OF lg st put p2p, of exampleEnv exampleRequest exampleNow]
  show ?thesis
    by (simp add: Let_def example_selectors Send_def exampleP2p_def)
qed

section \<open>Delete\<close>

lemma Delete_missing_key:
  assumes "Storage s = Some st" and "getError st = None"
    and "map_of (kv st) (getOrderStorageKey (OrderPrefix env) (osr_ChannelID req) (osr_OrderID req)) = None"
  shows "Delete env s req = (Return (None, Some (E ''Delete order'' ErrNotFound)), s)"
  using assms by (simp add: Delete_def Storage_Get_def)

lemma Delete_returns_state:
  assumes "Storage s = Some st" and "getError st = None" and "deleteError st = None"
    and "Delete env s req = (Return r1, s1)"
  shows "\<exists>st1. Storage s1 = Some st1 \<and> getError st1 = None \<and>
           map_of (kv st1) (getOrderStorageKey (OrderPrefix env) (osr_ChannelID req) (osr_OrderID req)) = None"
proof (cases "map_of (kv st) (getOrderStorageKey (OrderPrefix env) (osr_ChannelID req) (osr_OrderID req))")
  case None
  with assms Delete_missing_key [of s st env req] show ?thesis by simp
next
  case (Some v)
  with assms show ?thesis
    by (auto simp: Delete_def Storage_Get_def Storage_Delete_def Logger_call_def Let_def delete_conv'
        split: option.splits outcome.splits)
qed

text \<open>
  C4. The second of two \<open>Delete\<close> calls does return an error: the first call
  removes the stored order and returns no error, and the second, which begins by reading
  the order, returns the failure of that read.
\<close>

theorem C4_second_delete_errors:
  "fst (Delete exampleEnv exampleService deleteRequest) = Return (Some (), None) \<and>
   fst (Delete exampleEnv (snd (Delete exampleEnv exampleService deleteRequest)) deleteRequest)
     = Return (None, Some (E ''Delete order'' ErrNotFound))"
  by (simp add: Delete_def storage_defs getOrderStorageKey_def example_defs deleteRequest_def
      Send_def Let_def)

text \<open>
  C4, as amended. On a storage whose read fails only on a missing key and whose delete
  does not fail, for every (channel, orderID), once a first \<open>Delete\<close> has returned, a
  second \<open>Delete\<close> of the same pair leaves the storage without that key, broadcasts
  nothing and changes nothing, and returns the nil response with the error
  \<open>Delete order\<close> wrapping the storage's not-found error.
\<close>

theorem C4_delete_twice_amended:
  assumes "Storage s = Some st" and "getError st = None" and "deleteError st = None"
    and "Delete env s req = (Return r1, s1)"
  shows "Delete env s1 req = (Return (None, Some (E ''Delete order'' ErrNotFound)), s1) \<and>
         map_option (\<lambda>st1. map_of (kv st1)
                        (getOrderStorageKey (OrderPrefix env) (osr_ChannelID req) (osr_OrderID req)))
           (Storage s1) = Some None"
proof -
  from Delete_returns_state [OF assms] obtain st1 where
    "Storage s1 = Some st1" and "getError st1 = None" and
    "map_of (kv st1) (getOrderStorageKey (OrderPrefix env) (osr_ChannelID req) (osr_OrderID req)) = None"
    by blast
  then show ?thesis using Delete_missing_key [of s1 st1 env req] by simp
qed

theorem C4_delete_twice_amended_witness:
  "Delete exampleEnv (snd (Delete exampleEnv exampleService deleteRequest)) deleteRequest
     = (Return (None, Some (E ''Delete order'' ErrNotFound)),
        snd (Delete exampleEnv exampleService deleteRequest)) \<and>
   map_option (\<lambda>st1. map_of (kv st1) ''order-c1id1'')
     (Storage (snd (Delete exampleEnv exampleService deleteRequest))) = Some None"
proof -
  have first: "Delete exampleEnv exampleService deleteRequest
    = (Return (Some (), None), snd (Delete exampleEnv exampleService deleteRequest))"
    by (simp add: Delete_def storage_defs getOrderStorageKey_def example_defs deleteRequest_def
        Send_def Let_def)
  have "Storage exampleService = Some exampleStorage" "getError exampleStorage = None"
    "deleteError exampleStorage = None"
    by (simp_all add: example_defs)
  from C4_delete_twice_amended [OF this first] show ?thesis
    by (simp add: getOrderStorageKey_def exampleEnv_def deleteRequest_def)
qed

section \<open>Receive\<close>

text \<open>
  C5. For every buffer on which decoding the envelope fails, \<open>Receive\<close> returns the
  decode error, wrapped, and does nothing else: the whole state of the node (storage,
  transport with its streams and connections, logger) is the one it started from.
\<close>

theorem C5_envelope_decode_failure:
  assumes "Unmarshal_WireMessage env buf = (wireMessage, Some e)"
  shows "Receive env s buf fromPeer
           = (Return (Some (E ''Unmarshal wiremessage proto in Receive'' e)), s)"
  using assms by (simp add: Receive_def)

theorem C5_envelope_decode_failure_witness:
  "Receive exampleEnv exampleService [] ''peerP''
     = (Return (Some (E ''Unmarshal wiremessage proto in Receive'' (Cause ''unexpected EOF''))),
        exampleService)"
proof -
  have "Unmarshal_WireMessage exampleEnv []
          = (\<lparr>ChannelID = [], Operation = CREATE, Data = []\<rparr>, Some (Cause ''unexpected EOF''))"
    by (simp add: exampleEnv_def)
  from C5_envelope_decode_failure [OF this] show ?thesis .
qed

text \<open>
  With no storage registered, \<open>Receive\<close> of a message that decodes logs the message and
  a warning and returns no error, whatever the operation and whether or not a transport is
  registered.
\<close>

lemma Receive_without_storage:
  assumes "Unmarshal_WireMessage env buf = (wireMessage, None)"
    and "Logger s = Some lg" and "Storage s = None"
  shows "Receive env s buf fromPeer =
           (Return None,
            s\<lparr>Logger := Some (lg @ [Debugf ''%s: %s.%s''
                                       [ArgStr fromPeer, ArgStr (ChannelID wireMessage),
                                        ArgOp (Operation wireMessage)],
                                    Warn [ArgStr noStorageWarning]])\<rparr>)"
  using assms by (simp add: Receive_def Logger_call_def Let_def)

lemma Receive_SYNC_REQUEST_without_transport:
  assumes "syncResponse env st channelID = Inr marshaledData" and "P2p s = None"
  shows "Receive_SYNC_REQUEST env s st channelID fromPeer = (Panic nilDeref, s)"
  using assms by (simp add: Receive_SYNC_REQUEST_def)

text \<open>
  C6. \<open>Receive\<close> of a well-formed message is meant never to panic when the storage,
  the transport or both are missing. On a node with a storage and no transport, a sync
  request panics: the case \<^verbatim>\<open>SYNC_REQUEST\<close> calls \<^verbatim>\<open>s.P2p.OpenStream\<close> on the nil
  interface, where \<open>Create\<close> and \<open>Delete\<close> test \<^verbatim>\<open>s.P2p != nil\<close> first.
\<close>

theorem C6_sync_request_without_transport_panics:
  "Storage localService = Some exampleStorage \<and>
   P2p localService = None \<and>
   Unmarshal_WireMessage exampleEnv ''Qc1:''
     = (\<lparr>ChannelID = ''c1'', Operation = SYNC_REQUEST, Data = []\<rparr>, None) \<and>
   fst (Receive exampleEnv localService ''Qc1:'' ''peerP'') = Panic nilDeref"
  by (simp add: Receive_def Receive_SYNC_REQUEST_def syncResponse_def Logger_call_def
      Storage_GetAllWithPrefix_def getOrderQueryPrefix_def example_defs Let_def)

section \<open>Stream manager\<close>

lemma CloseStream_unknown_peer:
  "streams p2p peerID = None \<Longrightarrow> CloseStream p2p peerID = (Panic nilDeref, p2p)"
  by (simp add: CloseStream_def)

lemma CloseStream_known_peer:
  assumes "streams p2p peerID = Some strm" and "stream strm = Some c"
    and "c < length (conns (host p2p))"
  shows "fst (CloseStream p2p peerID) = Return (closeError (host p2p) c) \<and>
         streams (snd (CloseStream p2p peerID)) peerID = None \<and>
         closed (conns (host (snd (CloseStream p2p peerID))) ! c)"
  using assms by (simp add: CloseStream_def conn_Close_def)

text \<open>
  C7. \<open>CloseStream\<close> of a peer with no entry in the stream map is meant to return
  an error rather than crash. It panics: the map gives the nil pointer for a missing key
  and \<^verbatim>\<open>.stream\<close> is read through it, leaving the manager as it was.
\<close>

theorem C7_close_unknown_peer_panics:
  "streams exampleP2p ''peerQ'' = None \<and>
   CloseStream exampleP2p ''peerQ'' = (Panic nilDeref, exampleP2p)"
  by (simp add: CloseStream_def exampleP2p_def)

text \<open>
  Whatever \<open>OpenStream\<close> returns, it is the zero \<open>Stream\<close>: the stream it has opened is
  in the map only. Writing to the zero \<open>Stream\<close> panics, so on a node with a transport
  the case \<^verbatim>\<open>SYNC_REQUEST\<close> never ends with the nil error.
\<close>

lemma OpenStream_returns_zero_Stream:
  assumes "OpenStream p2p peerID = (Return res, p2p1)"
  shows "fst res = \<lparr>stream = None, input = None, output' = None\<rparr>"
  using assms
  by (auto simp: OpenStream_def host_NewStream_def Logger_call_def Let_def
      split: option.splits)

lemma writeAndClose_nil_input:
  assumes "input strm = None"
  shows "writeAndClose s p2p1 strm fromPeer marshaledData = (Panic nilDeref, s\<lparr>P2p := Some p2p1\<rparr>)"
  using assms by (simp add: writeAndClose_def WriteToStream_def)

lemma Receive_SYNC_REQUEST_never_succeeds:
  assumes "P2p s = Some p2p"
  shows "fst (Receive_SYNC_REQUEST env s st channelID fromPeer) \<noteq> Return None"
proof (cases "syncResponse env st channelID")
  case (Inl e)
  then show ?thesis by (simp add: Receive_SYNC_REQUEST_def)
next
  case (Inr marshaledData)
  obtain opened p2p1 where op: "OpenStream p2p fromPeer = (opened, p2p1)"
    by (cases "OpenStream p2p fromPeer")
  show ?thesis
  proof (cases opened)
    case (Panic m)
    with Inr assms op show ?thesis by (simp add: Receive_SYNC_REQUEST_def)
  next
    case (Return res)
    with op have "input (fst res) = None"
      using OpenStream_returns_zero_Stream [of p2p fromPeer res p2p1] by simp
    with Inr assms op Return show ?thesis
      by (cases "snd res") (simp_all add: Receive_SYNC_REQUEST_def writeAndClose_nil_input)
  qed
qed

text \<open>
  C1. \<open>Receive\<close> of a sync request, on a node with storage and transport, is meant
  to open a stream to the sender, write the encoded SYNC_RECEIVE envelope to it, close it
  and return no error. On such a node, with a reachable sender, the stream is opened and
  registered, but \<open>Receive\<close> panics at the write: the stream it writes to is the zero
  \<open>Stream\<close> that \<open>OpenStream\<close> returned. Nothing is delivered on the connection,
  which stays open and in the map.
\<close>

theorem C1_sync_request_write_panics:
  "Unmarshal_WireMessage exampleEnv ''Qc1:''
     = (\<lparr>ChannelID = ''c1'', Operation = SYNC_REQUEST, Data = []\<rparr>, None) \<and>
   fst (Receive exampleEnv exampleService ''Qc1:'' ''peerP'') = Panic nilDeref \<and>
   P2p (snd (Receive exampleEnv exampleService ''Qc1:'' ''peerP''))
     = Some (exampleP2p
               \<lparr>p2p_Logger := Some [Debugf ''Stream opened with %s'' [ArgStr ''peerP'']],
                host := (host exampleP2p)
                          \<lparr>conns := [\<lparr>remote = ''peerP'', delivered = [], closed = False\<rparr>]\<rparr>,
                streams := [''peerP'' \<mapsto> \<lparr>stream = Some 0, input = Some 0, output' = None\<rparr>]\<rparr>)"
  by (simp add: Receive_def Receive_SYNC_REQUEST_def syncResponse_def writeAndClose_def
      OpenStream_def WriteToStream_def host_NewStream_def Logger_call_def
      Storage_GetAllWithPrefix_def getOrderQueryPrefix_def example_defs Let_def)

end
